theory Spec2Isabelle
  imports Main "HOL-Library.Word"
begin

unbundle bit_operations_syntax

section \<open>Errors and results\<close>

text \<open>
  The error values of the two packages (\<open>oonet\<close> in \<open>dns.go\<close>, \<open>netxlite\<close> in the
  resolver files). Go's \<open>errors.New\<close> gives every package-level error its own identity,
  so \<open>ErrDNSServerTemporarilyMisbehaving\<close> and \<open>ErrDNSServerMisbehaving\<close> are two
  values although both print as "server misbehaving". \<open>ForeignError\<close> stands for
  an error made outside these packages (the DNS library, the network, the context,
  the IDNA library); it is never a redial hint.
\<close>

datatype error =
    ErrDNSNoSuchHost
  | ErrDNSNoAsnwerFromDNSServer
  | ErrDNSServerTemporarilyMisbehaving
  | ErrDNSServerMisbehaving
  | errDNSOverTCPTLSQueryTooLong
  | errDNSOverTCPTLSRedial error
  | ErrLookupHost error
  | ErrNoResolver
  | ErrWrapper string string error
  | ForeignError string

fun error_Error :: "error \<Rightarrow> string" where
  "error_Error ErrDNSNoSuchHost = ''no such host''"
| "error_Error ErrDNSNoAsnwerFromDNSServer = ''no answer from DNS server''"
| "error_Error ErrDNSServerTemporarilyMisbehaving = ''server misbehaving''"
| "error_Error ErrDNSServerMisbehaving = ''server misbehaving''"
| "error_Error errDNSOverTCPTLSQueryTooLong = ''query too long''"
| "error_Error (errDNSOverTCPTLSRedial e) = error_Error e"
| "error_Error (ErrLookupHost e) = error_Error e"
| "error_Error ErrNoResolver = ''no configured resolver''"
| "error_Error (ErrWrapper failure operation e) = failure"
| "error_Error (ForeignError s) = s"

text \<open>
  A Go function returning \<open>(value, error)\<close> returns a pair; the error is \<open>None\<close> for
  \<open>nil\<close>. A \<open>nil\<close> slice and an empty slice are both the empty list.
\<close>

type_synonym byte = "8 word"
type_synonym uint16 = "16 word"
type_synonym 'a result = "'a \<times> error option"

section \<open>DNS messages (the part of miekg/dns the code uses)\<close>

type_synonym IP = "byte list"

text \<open>
  A resource record of the answer section, by its Go dynamic type: the decoder's type
  assertions \<open>answer.(*dns.A)\<close> and \<open>answer.(*dns.AAAA)\<close> look at nothing else.
\<close>

datatype RR = RR_A IP | RR_AAAA IP | RR_Other uint16

datatype EDNS0 = EDNS0_PADDING "byte list"

record OPT =
  UDPSize :: uint16
  Do :: bool
  Option :: "EDNS0 list"

record Question =
  Name :: string
  Qtype :: uint16
  Qclass :: uint16

record Msg =
  Id :: uint16
  RecursionDesired :: bool
  Rcode :: int
  Question :: "Question list"
  Answer :: "RR list"
  Extra :: "OPT list"

definition TypeA :: uint16 where "TypeA = 1"
definition TypeAAAA :: uint16 where "TypeAAAA = 28"
definition TypeOPT :: uint16 where "TypeOPT = 41"
definition ClassINET :: uint16 where "ClassINET = 1"
definition EDNS0PADDING :: uint16 where "EDNS0PADDING = 12"

definition RcodeSuccess :: int where "RcodeSuccess = 0"
definition RcodeServerFailure :: int where "RcodeServerFailure = 2"
definition RcodeNameError :: int where "RcodeNameError = 3"

text \<open>
  The library functions whose source is not part of the repository are parameters:
  \<open>Fqdn\<close> (\<open>dns.Fqdn\<close>), \<open>packDomainName\<close> (the wire form of a name, an error for a
  name the library refuses), \<open>Unpack\<close> (\<open>Msg.Unpack\<close>) and \<open>IP_String\<close>
  (\<open>net.IP.String\<close>).
\<close>

record dnslib =
  Fqdn :: "string \<Rightarrow> string"
  packDomainName :: "string \<Rightarrow> error + byte list"
  Unpack :: "byte list \<Rightarrow> error + Msg"
  IP_String :: "IP \<Rightarrow> string"

text \<open>
  The monitor taken from the context (\<open>ContextMonitor(ctx)\<close>): four callbacks acting on
  the world \<open>'w\<close>. The two query callbacks receive \<open>query.String()\<close>; the model hands
  them the message itself.
\<close>

record 'w DNSMonitor =
  OnDNSLookupHostStart :: "string \<Rightarrow> 'w \<Rightarrow> 'w"
  OnDNSLookupHostDone :: "string \<Rightarrow> string list \<Rightarrow> error option \<Rightarrow> 'w \<Rightarrow> 'w"
  OnDNSSendQuery :: "Msg \<Rightarrow> 'w \<Rightarrow> 'w"
  OnDNSRecvReply :: "Msg \<Rightarrow> 'w \<Rightarrow> 'w"

section \<open>The codec: decoding\<close>

text \<open>
  The loop over \<open>reply.Answer\<close> of \<open>DecodeLookupHostResponse\<close>, with \<open>addrs\<close> as
  accumulator: the inner \<open>switch qtype\<close> has a case for \<open>TypeA\<close>, one for \<open>TypeAAAA\<close>
  and no default.
\<close>

fun collect_addrs :: "dnslib \<Rightarrow> uint16 \<Rightarrow> RR list \<Rightarrow> string list \<Rightarrow> string list" where
  "collect_addrs lib qtype [] addrs = addrs"
| "collect_addrs lib qtype (answer # rest) addrs =
     collect_addrs lib qtype rest
       (if qtype = TypeA then
          (case answer of RR_A ip \<Rightarrow> addrs @ [IP_String lib ip] | _ \<Rightarrow> addrs)
        else if qtype = TypeAAAA then
          (case answer of RR_AAAA ip \<Rightarrow> addrs @ [IP_String lib ip] | _ \<Rightarrow> addrs)
        else addrs)"

text \<open>
  \<open>DecodeLookupHostResponse\<close>. In Go a \<open>case\<close> with an empty body leaves the
  \<open>switch\<close>, so \<open>case dns.RcodeSuccess:\<close> goes on to the loop and only the other
  response codes reach \<open>default\<close>.
\<close>

definition DecodeLookupHostResponse ::
  "dnslib \<Rightarrow> 'w DNSMonitor \<Rightarrow> uint16 \<Rightarrow> byte list \<Rightarrow> 'w \<Rightarrow> string list result \<times> 'w" where
  "DecodeLookupHostResponse lib mon qtype data w =
     (case Unpack lib data of
        Inl err \<Rightarrow> (([], Some err), w)
      | Inr reply \<Rightarrow>
          (let w1 = OnDNSRecvReply mon reply w in
           if Rcode reply = RcodeNameError then (([], Some ErrDNSNoSuchHost), w1)
           else if Rcode reply = RcodeServerFailure then
             (([], Some ErrDNSServerTemporarilyMisbehaving), w1)
           else if Rcode reply = RcodeSuccess then
             (let addrs = collect_addrs lib qtype (Answer reply) [] in
              if length addrs \<le> 0 then (([], Some ErrDNSNoAsnwerFromDNSServer), w1)
              else ((addrs, None), w1))
           else (([], Some ErrDNSServerMisbehaving), w1)))"

text \<open>
  What the specification asks of a success reply: the answer records whose type is the
  requested one (A or AAAA), in reply order.
\<close>

fun rr_matches :: "uint16 \<Rightarrow> RR \<Rightarrow> bool" where
  "rr_matches qtype (RR_A ip) = (qtype = TypeA)"
| "rr_matches qtype (RR_AAAA ip) = (qtype = TypeAAAA)"
| "rr_matches qtype (RR_Other t) = False"

fun rr_addr :: "dnslib \<Rightarrow> RR \<Rightarrow> string" where
  "rr_addr lib (RR_A ip) = IP_String lib ip"
| "rr_addr lib (RR_AAAA ip) = IP_String lib ip"
| "rr_addr lib (RR_Other t) = []"

definition matching_addrs :: "dnslib \<Rightarrow> uint16 \<Rightarrow> RR list \<Rightarrow> string list" where
  "matching_addrs lib qtype answers = map (rr_addr lib) (filter (rr_matches qtype) answers)"

section \<open>The codec: encoding\<close>

text \<open>
  Modelled from the spec: the miekg/dns library (\<open>SetEdns0\<close>, \<open>IsEdns0\<close>, \<open>Msg.Len\<close>,
  \<open>Msg.Pack\<close>) is not under src/. Section 6 of the specification names the format: the
  standard DNS message (RFC 1035: a 12-octet header, then each question as name, type and
  class) with the EDNS0 OPT pseudo-record in the additional section (root name, type 41,
  the UDP payload size in the class field, the DNSSEC-OK bit at the top of the flags, then
  the options, each with a 2-octet code and a 2-octet length before its data; padding is
  option 12). The source requests no compression, so \<open>Len\<close> is the length \<open>Pack\<close>
  produces. The model packs queries only: a message with answer records is refused.
\<close>

definition SetEdns0 :: "Msg \<Rightarrow> uint16 \<Rightarrow> bool \<Rightarrow> Msg" where
  "SetEdns0 m udpsize do = m\<lparr>Extra := Extra m @ [\<lparr>UDPSize = udpsize, Do = do, Option = []\<rparr>]\<rparr>"

definition IsEdns0 :: "Msg \<Rightarrow> OPT option" where
  "IsEdns0 m = (if Extra m = [] then None else Some (last (Extra m)))"

text \<open>\<open>query.IsEdns0().Option = append(query.IsEdns0().Option, opt)\<close>: the write goes
  through the pointer \<open>IsEdns0\<close> returns; a message without OPT record would panic, and
  the source calls it only after \<open>SetEdns0\<close>.\<close>

definition append_Option :: "Msg \<Rightarrow> EDNS0 \<Rightarrow> Msg" where
  "append_Option m opt =
     (case IsEdns0 m of
        None \<Rightarrow> m
      | Some e \<Rightarrow> m\<lparr>Extra := butlast (Extra m) @ [e\<lparr>Option := Option e @ [opt]\<rparr>]\<rparr>)"

definition domainNameLen :: "dnslib \<Rightarrow> string \<Rightarrow> nat" where
  "domainNameLen lib s =
     (case packDomainName lib s of Inr bs \<Rightarrow> length bs | Inl e \<Rightarrow> length s + 1)"

fun EDNS0_len :: "EDNS0 \<Rightarrow> nat" where
  "EDNS0_len (EDNS0_PADDING p) = 4 + length p"

definition OPT_len :: "OPT \<Rightarrow> nat" where
  "OPT_len e = 11 + sum_list (map EDNS0_len (Option e))"

definition Question_len :: "dnslib \<Rightarrow> Question \<Rightarrow> nat" where
  "Question_len lib q = domainNameLen lib (Name q) + 4"

definition Msg_Len :: "dnslib \<Rightarrow> Msg \<Rightarrow> nat" where
  "Msg_Len lib m =
     12 + sum_list (map (Question_len lib) (Question m)) + sum_list (map OPT_len (Extra m))"

definition u16be :: "uint16 \<Rightarrow> byte list" where
  "u16be x = [ucast (drop_bit 8 x), ucast x]"

fun pack_EDNS0 :: "EDNS0 \<Rightarrow> byte list" where
  "pack_EDNS0 (EDNS0_PADDING p) = u16be EDNS0PADDING @ u16be (word_of_nat (length p)) @ p"

definition pack_OPT :: "OPT \<Rightarrow> byte list" where
  "pack_OPT e =
     (let rdata = concat (map pack_EDNS0 (Option e)) in
      [0] @ u16be TypeOPT @ u16be (UDPSize e) @ [0, 0] @ u16be (if Do e then 0x8000 else 0)
        @ u16be (word_of_nat (length rdata)) @ rdata)"

fun pack_Questions :: "dnslib \<Rightarrow> Question list \<Rightarrow> error + byte list" where
  "pack_Questions lib [] = Inr []"
| "pack_Questions lib (q # qs) =
     (case packDomainName lib (Name q) of
        Inl e \<Rightarrow> Inl e
      | Inr n \<Rightarrow>
          (case pack_Questions lib qs of
             Inl e \<Rightarrow> Inl e
           | Inr rest \<Rightarrow> Inr (n @ u16be (Qtype q) @ u16be (Qclass q) @ rest)))"

definition pack_header :: "Msg \<Rightarrow> byte list" where
  "pack_header m =
     u16be (Id m) @ [if RecursionDesired m then 1 else 0, word_of_int (Rcode m) AND 15]
       @ u16be (word_of_nat (length (Question m))) @ u16be 0 @ u16be 0
       @ u16be (word_of_nat (length (Extra m)))"

definition Msg_Pack :: "dnslib \<Rightarrow> Msg \<Rightarrow> error + byte list" where
  "Msg_Pack lib m =
     (if Answer m \<noteq> [] then Inl (ForeignError ''dns: answer section not packed'')
      else case pack_Questions lib (Question m) of
             Inl e \<Rightarrow> Inl e
           | Inr qs \<Rightarrow> Inr (pack_header m @ qs @ concat (map pack_OPT (Extra m))))"

text \<open>
  \<open>EncodeLookupHostRequest\<close>, in two steps: the message the function builds (the query
  identifier \<open>dns.Id()\<close> is random, hence an argument), and its packing. \<open>uint\<close> is 64
  bits wide, so \<open>desiredBlockSize - uint(query.Len()+4)\<close> wraps around below zero.
\<close>

definition desiredBlockSize :: "64 word" where "desiredBlockSize = 128"
definition EDNS0MaxResponseSize :: uint16 where "EDNS0MaxResponseSize = 4096"
definition DNSSECEnabled :: bool where "DNSSECEnabled = True"

definition padding_remainder :: "dnslib \<Rightarrow> Msg \<Rightarrow> 64 word" where
  "padding_remainder lib query =
     (desiredBlockSize - word_of_nat (Msg_Len lib query + 4)) mod desiredBlockSize"

definition EncodeLookupHostRequest_query :: "dnslib \<Rightarrow> uint16 \<Rightarrow> string \<Rightarrow> uint16 \<Rightarrow> bool \<Rightarrow> Msg" where
  "EncodeLookupHostRequest_query lib qid domain qtype padding =
     (let question = \<lparr>Name = Fqdn lib domain, Qtype = qtype, Qclass = ClassINET\<rparr>;
          query = \<lparr>Id = qid, RecursionDesired = True, Rcode = RcodeSuccess,
                   Question = [question], Answer = [], Extra = []\<rparr>
      in if padding then
           (let query1 = SetEdns0 query EDNS0MaxResponseSize DNSSECEnabled;
                remainder = padding_remainder lib query1;
                opt = EDNS0_PADDING (replicate (unat remainder) 0)
            in append_Option query1 opt)
         else query)"

definition EncodeLookupHostRequest ::
  "dnslib \<Rightarrow> 'w DNSMonitor \<Rightarrow> uint16 \<Rightarrow> string \<Rightarrow> uint16 \<Rightarrow> bool \<Rightarrow> 'w \<Rightarrow> byte list result \<times> 'w" where
  "EncodeLookupHostRequest lib mon qid domain qtype padding w =
     (let query = EncodeLookupHostRequest_query lib qid domain qtype padding;
          w1 = OnDNSSendQuery mon query w
      in case Msg_Pack lib query of
           Inl err \<Rightarrow> (([], Some err), w1)
         | Inr data \<Rightarrow> ((data, None), w1))"

section \<open>The generic (dual-query) resolver\<close>

text \<open>
  \<open>DNSCodec\<close> and \<open>dnsTransport\<close> are interfaces; an implementation is a record of
  functions on the world. \<open>dnsMiekgCodec\<close> is the codec above; \<open>next_Id\<close> draws the
  random identifier.
\<close>

record 'w DNSCodec =
  codec_EncodeLookupHostRequest :: "string \<Rightarrow> uint16 \<Rightarrow> bool \<Rightarrow> 'w \<Rightarrow> byte list result \<times> 'w"
  codec_DecodeLookupHostResponse :: "uint16 \<Rightarrow> byte list \<Rightarrow> 'w \<Rightarrow> string list result \<times> 'w"

definition dnsMiekgCodec :: "dnslib \<Rightarrow> 'w DNSMonitor \<Rightarrow> ('w \<Rightarrow> uint16) \<Rightarrow> 'w DNSCodec" where
  "dnsMiekgCodec lib mon next_Id =
     \<lparr>codec_EncodeLookupHostRequest =
        (\<lambda>domain qtype padding w. EncodeLookupHostRequest lib mon (next_Id w) domain qtype padding w),
      codec_DecodeLookupHostResponse = DecodeLookupHostResponse lib mon\<rparr>"

type_synonym 'w dnsTransport = "byte list \<Rightarrow> 'w \<Rightarrow> byte list result \<times> 'w"

record 'w dnsGenericResolver =
  codec :: "'w DNSCodec"
  padding :: bool
  t :: "'w dnsTransport"

definition doLookupHost ::
  "'w dnsGenericResolver \<Rightarrow> string \<Rightarrow> uint16 \<Rightarrow> bool \<Rightarrow> 'w \<Rightarrow> string list result \<times> 'w" where
  "doLookupHost r hostname qtype pad w =
     (case codec_EncodeLookupHostRequest (codec r) hostname qtype pad w of
        ((query, Some err), w1) \<Rightarrow> (([], Some err), w1)
      | ((query, None), w1) \<Rightarrow>
          (case t r query w1 of
             ((reply, Some err), w2) \<Rightarrow> (([], Some err), w2)
           | ((reply, None), w2) \<Rightarrow> codec_DecodeLookupHostResponse (codec r) qtype reply w2))"

text \<open>
  \<open>LookupHost\<close> starts the goroutine of the A query, receives its result from the
  unbuffered channel \<open>resA\<close>, and only then starts the goroutine of the AAAA query and
  receives from \<open>resAAAA\<close>. (The step-by-step model of these goroutines is
  \<open>lh_steps\<close> below.) The merge follows.
\<close>

definition merge_replies :: "string list result \<Rightarrow> string list result \<Rightarrow> string list result" where
  "merge_replies replyA replyAAAA =
     (if snd replyA \<noteq> None \<and> snd replyAAAA \<noteq> None then ([], snd replyA)
      else (let addrs = fst replyA @ fst replyAAAA in
            if length addrs < 1 then ([], Some ErrDNSNoAsnwerFromDNSServer)
            else (addrs, None)))"

definition LookupHost :: "'w dnsGenericResolver \<Rightarrow> string \<Rightarrow> 'w \<Rightarrow> string list result \<times> 'w" where
  "LookupHost r hostname w =
     (let (replyA, w1) = doLookupHost r hostname TypeA (padding r) w;
          (replyAAAA, w2) = doLookupHost r hostname TypeAAAA (padding r) w1
      in (merge_replies replyA replyAAAA, w2))"


section \<open>A concrete library and network for the examples\<close>

text \<open>
  The examples below need values for the library parameters. \<open>example_lib\<close> packs a
  name label by label (a length octet before each label, a zero octet at the end, no
  escapes), prints a 4-octet address in dotted decimal, and unpacks through a table.
\<close>

definition digit_char :: "nat \<Rightarrow> char" where
  "digit_char n = ''0123456789'' ! n"

definition byte_decimal :: "byte \<Rightarrow> string" where
  "byte_decimal b =
     (let n = unat b in
      (if 100 \<le> n then [digit_char (n div 100)] else [])
      @ (if 10 \<le> n then [digit_char (n div 10 mod 10)] else [])
      @ [digit_char (n mod 10)])"

fun dotted :: "byte list \<Rightarrow> string" where
  "dotted [] = []"
| "dotted [b] = byte_decimal b"
| "dotted (b # bs) = byte_decimal b @ ''.'' @ dotted bs"

fun pack_labels :: "string \<Rightarrow> string \<Rightarrow> byte list" where
  "pack_labels label [] = (if label = [] then [0] else word_of_nat (length label) # map of_char label @ [0])"
| "pack_labels label (c # cs) =
     (if c = CHR ''.'' then word_of_nat (length label) # map of_char label @ pack_labels [] cs
      else pack_labels (label @ [c]) cs)"

definition example_Fqdn :: "string \<Rightarrow> string" where
  "example_Fqdn s = (if s \<noteq> [] \<and> last s = CHR ''.'' then s else s @ ''.'')"

definition example_lib :: "(byte list \<Rightarrow> error + Msg) \<Rightarrow> dnslib" where
  "example_lib unpack =
     \<lparr>Fqdn = example_Fqdn,
      packDomainName = (\<lambda>s. if length s \<le> 254 then Inr (pack_labels [] s)
                             else Inl (ForeignError ''dns: bad rdata'')),
      Unpack = unpack,
      IP_String = dotted\<rparr>"

definition silent_monitor :: "'w DNSMonitor" where
  "silent_monitor =
     \<lparr>OnDNSLookupHostStart = (\<lambda>hostname w. w),
      OnDNSLookupHostDone = (\<lambda>hostname addrs err w. w),
      OnDNSSendQuery = (\<lambda>query w. w),
      OnDNSRecvReply = (\<lambda>reply w. w)\<rparr>"

definition example_reply :: "int \<Rightarrow> RR list \<Rightarrow> Msg" where
  "example_reply rcode answers =
     \<lparr>Id = 7, RecursionDesired = True, Rcode = rcode, Question = [], Answer = answers, Extra = []\<rparr>"

text \<open>A reply table: the message \<open>[1]\<close> is a success reply with an A record, a CNAME-like
  record of another type and an AAAA record; \<open>[2]\<close> is a name error; \<open>[3]\<close> is a success
  reply with the AAAA record only; anything else does not parse.\<close>

definition example_AAAA :: IP where
  "example_AAAA = [0x26, 0x06, 0x28, 0, 0x02, 0x20, 0, 1, 0x02, 0x48, 0x18, 0x93, 0x25, 0xc8, 0x19, 0x46]"

definition example_Unpack :: "byte list \<Rightarrow> error + Msg" where
  "example_Unpack data =
     (if data = [1] then
        Inr (example_reply RcodeSuccess [RR_A [93, 184, 216, 34], RR_Other 5, RR_AAAA example_AAAA])
      else if data = [2] then Inr (example_reply RcodeNameError [RR_A [93, 184, 216, 34]])
      else if data = [3] then Inr (example_reply RcodeSuccess [RR_AAAA example_AAAA])
      else Inl (ForeignError ''dns: overflow unpacking uint16''))"

text \<open>A transport over a world that counts the round trips: the first one fails, every
  later one is answered with the message \<open>[3]\<close>.\<close>

definition example_transport :: "nat dnsTransport" where
  "example_transport query n =
     (if n = 0 then (([], Some (ForeignError ''i/o timeout'')), Suc n)
      else (([3], None), Suc n))"

definition example_resolver :: "nat dnsGenericResolver" where
  "example_resolver =
     \<lparr>codec = dnsMiekgCodec (example_lib example_Unpack) silent_monitor (\<lambda>n. word_of_nat n),
      padding = False,
      t = example_transport\<rparr>"


section \<open>The TCP/TLS transport\<close>

text \<open>
  The network is seen through the calls the code makes on it. A connection is a handle;
  every call is recorded, with its outcome, in a history of events, and the network's
  answer to a call is a function of the history so far, so that any deterministic
  behaviour of the peer is some \<open>netenv\<close>. Errors of the network are foreign errors,
  given by their message. \<open>SetDeadline\<close> is called with \<open>time.Now().Add(10 * time.Second)\<close>
  or with the zero time; the clock itself is not modelled.
\<close>

datatype deadline = TenSecondsFromNow | NoDeadline

datatype io_event =
    EvDial string string "string + nat"
  | EvClose nat
  | EvSetDeadline nat deadline
  | EvWrite nat "byte list" "string option"
  | EvReadFull nat nat "string + byte list"

record netenv =
  dial_result :: "io_event list \<Rightarrow> string \<Rightarrow> string \<Rightarrow> string + nat"
  write_result :: "io_event list \<Rightarrow> nat \<Rightarrow> byte list \<Rightarrow> string option"
  read_result :: "io_event list \<Rightarrow> nat \<Rightarrow> nat \<Rightarrow> string + byte list"

text \<open>
  A context, as far as the transport looks at it: at a \<open>select\<close> that waits on
  \<open>ctx.Done()\<close> it says, from the history, whether that case is taken and with which
  \<open>ctx.Err()\<close>. \<open>context.Background()\<close> is never done.
\<close>

type_synonym Context = "io_event list \<Rightarrow> string option"

definition Background :: Context where
  "Background tr = None"

text \<open>
  The struct \<open>dnsOverTCPTLSResolver\<close>. Its fields \<open>codec\<close> and \<open>dial\<close> never change
  after construction: the codec is an argument where it is used and \<open>dial\<close> is the
  network's \<open>dial_result\<close>. \<open>users\<close> is an \<open>int32\<close>. The mutex is not a field of the
  model: a function below is the run of one caller holding the lock, and the callers
  parked on the lock show in \<open>users\<close>.
\<close>

record dnsOverTCPTLSResolver =
  address :: string
  conn :: "nat option"
  tcp_padding :: bool
  users :: "32 word"

text \<open>\<open>errors.As(err, &redial)\<close>: the error, or an error it wraps (the two wrapper types
  with an \<open>Unwrap\<close> method), is an \<open>errDNSOverTCPTLSRedial\<close>.\<close>

fun errors_As_redial :: "error \<Rightarrow> bool" where
  "errors_As_redial (errDNSOverTCPTLSRedial e) = True"
| "errors_As_redial (ErrLookupHost e) = errors_As_redial e"
| "errors_As_redial (ErrWrapper failure operation e) = errors_As_redial e"
| "errors_As_redial e = False"

definition forceDial ::
  "netenv \<Rightarrow> dnsOverTCPTLSResolver \<Rightarrow> io_event list
     \<Rightarrow> error option \<times> dnsOverTCPTLSResolver \<times> io_event list" where
  "forceDial env dl tr =
     (let (dl1, tr1) = (case conn dl of
                          Some c \<Rightarrow> (dl\<lparr>conn := None\<rparr>, tr @ [EvClose c])
                        | None \<Rightarrow> (dl, tr));
          res = dial_result env tr1 ''tcp'' (address dl1);
          tr2 = tr1 @ [EvDial ''tcp'' (address dl1) res]
      in case res of
           Inl msg \<Rightarrow> (Some (ForeignError msg), dl1, tr2)
         | Inr c \<Rightarrow> (None, dl1\<lparr>conn := Some c\<rparr>, tr2))"

definition maybeDial ::
  "netenv \<Rightarrow> dnsOverTCPTLSResolver \<Rightarrow> io_event list
     \<Rightarrow> error option \<times> dnsOverTCPTLSResolver \<times> io_event list" where
  "maybeDial env dl tr = (if conn dl \<noteq> None then (None, dl, tr) else forceDial env dl tr)"

text \<open>\<open>io.ReadFull\<close> fills the whole buffer or fails: a successful read of \<open>n\<close> octets
  has \<open>n\<close> octets. For an empty buffer it returns at once, without a call on the
  connection.\<close>

definition fill :: "nat \<Rightarrow> byte list \<Rightarrow> byte list" where
  "fill n bs = take n (bs @ replicate n 0)"

definition ReadFull ::
  "netenv \<Rightarrow> nat \<Rightarrow> nat \<Rightarrow> io_event list \<Rightarrow> (string + byte list) \<times> io_event list" where
  "ReadFull env c n tr =
     (if n = 0 then (Inr [], tr)
      else (let res = read_result env tr c n in
            (case res of Inl msg \<Rightarrow> Inl msg | Inr bs \<Rightarrow> Inr (fill n bs),
             tr @ [EvReadFull c n res])))"

definition length_prefix :: "byte list \<Rightarrow> byte list" where
  "length_prefix query =
     (let n = (word_of_nat (length query) :: 64 word) in [ucast (drop_bit 8 n), ucast n])"

definition reply_length :: "byte list \<Rightarrow> nat" where
  "reply_length header =
     unat (push_bit 8 (ucast (header ! 0) :: 64 word) OR ucast (header ! 1))"

text \<open>
  \<open>trySync\<close>. The deferred \<open>dl.conn.SetDeadline(time.Time{})\<close> runs at every return
  after the \<open>defer\<close> statement, and not at the return before it. Calling a method of
  a \<open>nil\<close> connection panics; the model returns the panic as a foreign error so that no
  case is left open (\<open>do\<close> calls \<open>trySync\<close> only with a connection).
\<close>

definition nil_conn_panic :: error where
  "nil_conn_panic = ForeignError ''panic: invalid memory address or nil pointer dereference''"

definition trySync ::
  "netenv \<Rightarrow> byte list \<Rightarrow> dnsOverTCPTLSResolver \<Rightarrow> io_event list
     \<Rightarrow> byte list result \<times> io_event list" where
  "trySync env query dl tr =
     (if length query > 65535 then (([], Some errDNSOverTCPTLSQueryTooLong), tr)
      else case conn dl of
        None \<Rightarrow> (([], Some nil_conn_panic), tr)
      | Some c \<Rightarrow>
         (let tr1 = tr @ [EvSetDeadline c TenSecondsFromNow];
              buf = length_prefix query @ query;
              werr = write_result env tr1 c buf;
              tr2 = tr1 @ [EvWrite c buf werr]
          in case werr of
               Some msg \<Rightarrow>
                 (([], Some (errDNSOverTCPTLSRedial (ForeignError msg))),
                  tr2 @ [EvSetDeadline c NoDeadline])
             | None \<Rightarrow>
                 (let (hres, tr3) = ReadFull env c 2 tr2
                  in case hres of
                       Inl msg \<Rightarrow> (([], Some (ForeignError msg)), tr3 @ [EvSetDeadline c NoDeadline])
                     | Inr header \<Rightarrow>
                         (let (rres, tr4) = ReadFull env c (reply_length header) tr3
                          in case rres of
                               Inl msg \<Rightarrow>
                                 (([], Some (ForeignError msg)), tr4 @ [EvSetDeadline c NoDeadline])
                             | Inr reply \<Rightarrow>
                                 ((reply, None), tr4 @ [EvSetDeadline c NoDeadline])))))"

text \<open>
  \<open>try\<close> (the name is taken in Isabelle) runs \<open>trySync\<close> in a goroutine and waits for
  its result or for the context. When the context wins, the goroutine is not stopped:
  its calls on the connection still happen, and the model has them in the history.
\<close>

definition try_tcptls ::
  "netenv \<Rightarrow> Context \<Rightarrow> byte list \<Rightarrow> dnsOverTCPTLSResolver \<Rightarrow> io_event list
     \<Rightarrow> byte list result \<times> io_event list" where
  "try_tcptls env ctx query dl tr =
     (let (out, tr1) = trySync env query dl tr in
      case ctx tr1 of
        Some msg \<Rightarrow> (([], Some (ForeignError msg)), tr1)
      | None \<Rightarrow> (out, tr1))"

text \<open>\<open>do\<close>: dial if needed, try, and on a redial hint dial again and try once more.\<close>

definition do_tcptls ::
  "netenv \<Rightarrow> Context \<Rightarrow> byte list \<Rightarrow> dnsOverTCPTLSResolver \<Rightarrow> io_event list
     \<Rightarrow> byte list result \<times> dnsOverTCPTLSResolver \<times> io_event list" where
  "do_tcptls env ctx query dl tr =
     (case maybeDial env dl tr of
        (Some err, dl1, tr1) \<Rightarrow> (([], Some err), dl1, tr1)
      | (None, dl1, tr1) \<Rightarrow>
          (case try_tcptls env ctx query dl1 tr1 of
             ((reply, None), tr2) \<Rightarrow> ((reply, None), dl1, tr2)
           | ((reply, Some err), tr2) \<Rightarrow>
               if \<not> errors_As_redial err then (([], Some err), dl1, tr2)
               else (case forceDial env dl1 tr2 of
                       (Some err', dl3, tr3) \<Rightarrow> (([], Some err'), dl3, tr3)
                     | (None, dl3, tr3) \<Rightarrow>
                         (let (out, tr4) = try_tcptls env ctx query dl3 tr3
                          in (out, dl3, tr4)))))"

text \<open>
  \<open>rtriplocked\<close> and \<open>roundTrip\<close>. The query is \<open>None\<close> for the \<open>nil\<close> slice, the
  sentinel of \<open>CloseIdleConnections\<close>. The counter is read with \<open>atomic.LoadInt32\<close>;
  \<open>conn.Close()\<close> returns an error that the code drops.
\<close>

definition rtriplocked ::
  "netenv \<Rightarrow> Context \<Rightarrow> byte list option \<Rightarrow> dnsOverTCPTLSResolver \<Rightarrow> io_event list
     \<Rightarrow> byte list result \<times> dnsOverTCPTLSResolver \<times> io_event list" where
  "rtriplocked env ctx query r tr =
     (case query of
        None \<Rightarrow>
          (case conn r of
             Some c \<Rightarrow>
               if users r = 0 then (([], None), r\<lparr>conn := None\<rparr>, tr @ [EvClose c])
               else (([], None), r, tr)
           | None \<Rightarrow> (([], None), r, tr))
      | Some q \<Rightarrow> do_tcptls env ctx q r tr)"

definition roundTrip ::
  "netenv \<Rightarrow> Context \<Rightarrow> byte list option \<Rightarrow> dnsOverTCPTLSResolver \<Rightarrow> io_event list
     \<Rightarrow> byte list result \<times> dnsOverTCPTLSResolver \<times> io_event list" where
  "roundTrip env ctx query r tr =
     (let r1 = r\<lparr>users := users r + 1\<rparr>;
          r2 = r1\<lparr>users := users r1 - 1\<rparr>
      in rtriplocked env ctx query r2 tr)"

definition CloseIdleConnections ::
  "netenv \<Rightarrow> dnsOverTCPTLSResolver \<Rightarrow> io_event list \<Rightarrow> dnsOverTCPTLSResolver \<times> io_event list" where
  "CloseIdleConnections env r tr = snd (roundTrip env Background None r tr)"

text \<open>The write attempts in a history.\<close>

fun is_write :: "io_event \<Rightarrow> bool" where
  "is_write (EvWrite c buf res) = True"
| "is_write e = False"

definition count_writes :: "io_event list \<Rightarrow> nat" where
  "count_writes tr = length (filter is_write tr)"



text \<open>
  A network for the examples: every dial gives a fresh handle (the number of events so
  far), a write on connection 1 fails with a broken pipe and succeeds elsewhere, a read
  of two octets gives the header \<open>[0, 1]\<close> and a read of one octet the message \<open>[3]\<close>.
\<close>

definition example_env :: netenv where
  "example_env =
     \<lparr>dial_result = (\<lambda>tr network addr. Inr (length tr)),
      write_result = (\<lambda>tr c buf. if c = 1 then Some ''write: broken pipe'' else None),
      read_result = (\<lambda>tr c n. if n = 2 then Inr [0, 1] else Inr [3])\<rparr>"

definition example_dl :: dnsOverTCPTLSResolver where
  "example_dl = \<lparr>address = ''8.8.8.8:853'', conn = Some 1, tcp_padding = True, users = 0\<rparr>"


section \<open>The resolvers and their decorators\<close>

text \<open>
  What the resolver files take from outside: \<open>idna.ToASCII\<close> (an error message or the
  ASCII name), \<open>net.ParseIP\<close> (whether the result is not \<open>nil\<close>), the logger's
  \<open>Debugf\<close>, the classifier of resolver errors, the lookup function of the operating
  system (\<open>testableLookupHost\<close>, or the standard library's), and the context with the
  system resolver's timeout, which says at the \<open>select\<close> whether \<open>ctx.Done()\<close> is the
  case taken. The elapsed time printed by the logger is not modelled; a call of \<open>Debugf\<close>
  is given by its prefix and what it prints after it.
\<close>

datatype debugf =
    Debugf_start string
  | Debugf_failure string error
  | Debugf_success string "string list"

record 'w netx =
  ToASCII :: "string \<Rightarrow> string + string"
  ParseIP :: "string \<Rightarrow> bool"
  Debugf :: "debugf \<Rightarrow> 'w \<Rightarrow> 'w"
  classifyResolverError :: "error \<Rightarrow> string"
  lookupHost :: "string \<Rightarrow> 'w \<Rightarrow> string list result \<times> 'w"
  ctx_Done :: "'w \<Rightarrow> string option"

text \<open>
  Modelled from the spec: the constant \<open>ResolveOperation\<close> is declared outside src/; the
  specification gives its value (operation = "resolve").
\<close>

definition ResolveOperation :: string where
  "ResolveOperation = ''resolve''"

text \<open>
  The implementations of the \<open>Resolver\<close> interface. \<open>ResolverExternal\<close> is an
  implementation from outside these files, given by its \<open>Network\<close>, its \<open>Address\<close> and
  its \<open>LookupHost\<close>: the standard library's resolver, a resolver over a DNS transport,
  a test double. \<open>DNSResolver\<close> is the wrapper of \<open>dns.go\<close> with its underlying
  resolver. The logger of the first resolver file prints "resolve" and the hostname,
  the one of the second also the resolver's network and address.
\<close>

datatype logfmt = Fmt_resolve | Fmt_resolve_A_AAAA

datatype 'w Resolver =
    ResolverSystem
  | NullResolver
  | ResolverExternal string string "string \<Rightarrow> 'w \<Rightarrow> string list result \<times> 'w"
  | DNSResolver "'w Resolver"
  | ResolverIDNA "'w Resolver"
  | ResolverLogger logfmt "'w Resolver"
  | ResolverShortCircuitIPAddr "'w Resolver"
  | ResolverErrWrapper "'w Resolver"

fun Network :: "'w Resolver \<Rightarrow> string" where
  "Network ResolverSystem = ''system''"
| "Network NullResolver = ''null''"
| "Network (ResolverExternal network addr f) = network"
| "Network (DNSResolver r) = Network r"
| "Network (ResolverIDNA r) = Network r"
| "Network (ResolverLogger fmt r) = Network r"
| "Network (ResolverShortCircuitIPAddr r) = Network r"
| "Network (ResolverErrWrapper r) = Network r"

fun Address :: "'w Resolver \<Rightarrow> string" where
  "Address ResolverSystem = []"
| "Address NullResolver = []"
| "Address (ResolverExternal network addr f) = addr"
| "Address (DNSResolver r) = Address r"
| "Address (ResolverIDNA r) = Address r"
| "Address (ResolverLogger fmt r) = Address r"
| "Address (ResolverShortCircuitIPAddr r) = Address r"
| "Address (ResolverErrWrapper r) = Address r"

fun log_prefix :: "logfmt \<Rightarrow> 'w Resolver \<Rightarrow> string \<Rightarrow> string" where
  "log_prefix Fmt_resolve r hostname = ''resolve '' @ hostname"
| "log_prefix Fmt_resolve_A_AAAA r hostname =
     ''resolve[A,AAAA] '' @ hostname @ '' with '' @ Network r @ '' ('' @ Address r @ '')''"

text \<open>
  \<open>LookupHost\<close> of each implementation. The system resolver runs the lookup in a
  goroutine and waits for its result or for the context; when the context wins, the
  lookup is abandoned, not undone.
\<close>

fun Resolver_LookupHost ::
  "'w netx \<Rightarrow> 'w DNSMonitor \<Rightarrow> 'w Resolver \<Rightarrow> string \<Rightarrow> 'w \<Rightarrow> string list result \<times> 'w" where
  "Resolver_LookupHost nx mon ResolverSystem hostname w =
     (let ((addrs, err), w1) = lookupHost nx hostname w in
      case ctx_Done nx w1 of
        Some msg \<Rightarrow> (([], Some (ForeignError msg)), w1)
      | None \<Rightarrow>
          (case err of
             Some e \<Rightarrow> (([], Some e), w1)
           | None \<Rightarrow> ((addrs, None), w1)))"
| "Resolver_LookupHost nx mon NullResolver hostname w = (([], Some ErrNoResolver), w)"
| "Resolver_LookupHost nx mon (ResolverExternal network addr f) hostname w = f hostname w"
| "Resolver_LookupHost nx mon (DNSResolver ures) hostname w =
     (let w1 = OnDNSLookupHostStart mon hostname w;
          ((addrs, err), w2) = Resolver_LookupHost nx mon ures hostname w1;
          err' = (case err of Some e \<Rightarrow> Some (ErrLookupHost e) | None \<Rightarrow> None);
          w3 = OnDNSLookupHostDone mon hostname addrs err' w2
      in ((addrs, err'), w3))"
| "Resolver_LookupHost nx mon (ResolverIDNA r) hostname w =
     (case ToASCII nx hostname of
        Inl msg \<Rightarrow> (([], Some (ForeignError msg)), w)
      | Inr host \<Rightarrow> Resolver_LookupHost nx mon r host w)"
| "Resolver_LookupHost nx mon (ResolverLogger fmt r) hostname w =
     (let prefix = log_prefix fmt r hostname;
          w1 = Debugf nx (Debugf_start prefix) w;
          ((addrs, err), w2) = Resolver_LookupHost nx mon r hostname w1
      in case err of
           Some e \<Rightarrow> (([], Some e), Debugf nx (Debugf_failure prefix e) w2)
         | None \<Rightarrow> ((addrs, None), Debugf nx (Debugf_success prefix addrs) w2))"
| "Resolver_LookupHost nx mon (ResolverShortCircuitIPAddr r) hostname w =
     (if ParseIP nx hostname then (([hostname], None), w)
      else Resolver_LookupHost nx mon r hostname w)"
| "Resolver_LookupHost nx mon (ResolverErrWrapper r) hostname w =
     (let ((addrs, err), w1) = Resolver_LookupHost nx mon r hostname w in
      case err of
        Some e \<Rightarrow>
          (([], Some (ErrWrapper (classifyResolverError nx e) ResolveOperation e)), w1)
      | None \<Rightarrow> ((addrs, None), w1))"

definition NewResolverSystem :: "'w Resolver" where
  "NewResolverSystem =
     ResolverIDNA (ResolverLogger Fmt_resolve
       (ResolverShortCircuitIPAddr (ResolverErrWrapper ResolverSystem)))"

definition WrapResolver :: "'w Resolver \<Rightarrow> 'w Resolver" where
  "WrapResolver resolver =
     ResolverIDNA (ResolverLogger Fmt_resolve_A_AAAA
       (ResolverShortCircuitIPAddr (ResolverErrWrapper resolver)))"

definition NewResolverStdlib :: "'w Resolver" where
  "NewResolverStdlib = WrapResolver ResolverSystem"




text \<open>
  For the examples: a library whose \<open>ToASCII\<close> leaves an ASCII name as it is and
  refuses any other, whose \<open>ParseIP\<close> knows two literals, and whose logger and lookups
  record what they are called with in the world, a journal.
\<close>

datatype journal_entry = Logged debugf | LookedUp string

definition example_netx :: "journal_entry list netx" where
  "example_netx =
     \<lparr>ToASCII = (\<lambda>s. if \<forall>c \<in> set s. of_char c < (128 :: nat) then Inr s
                      else Inl ''idna: invalid label''),
      ParseIP = (\<lambda>s. s = ''93.184.216.34'' \<or> s = ''::1''),
      Debugf = (\<lambda>d w. w @ [Logged d]),
      classifyResolverError = (\<lambda>e. ''dns_lookup_error''),
      lookupHost = (\<lambda>hostname w. (([], Some ErrDNSNoSuchHost), w @ [LookedUp hostname])),
      ctx_Done = (\<lambda>w. None)\<rparr>"

definition example_external :: "journal_entry list Resolver" where
  "example_external =
     ResolverExternal ''udp'' ''8.8.8.8:53''
       (\<lambda>hostname w. (([''10.0.0.1''], None), w @ [LookedUp hostname]))"


section \<open>The goroutines of the dual-query resolver, step by step\<close>

text \<open>
  \<open>dnsGenericResolver.LookupHost\<close> as a transition system. The main goroutine is at one
  of its statements: \<open>go asyncLookupHost(A)\<close>, \<open>replyA := <-resA\<close>,
  \<open>go asyncLookupHost(AAAA)\<close>, \<open>replyAAAA := <-resAAAA\<close>, or past them with the merged
  result. A goroutine of \<open>asyncLookupHost\<close> is not started, running \<open>doLookupHost\<close>,
  blocked in its send on the unbuffered channel with the result in hand, or returned.
  The receive of the main goroutine and the send of the task happen together. A task's
  \<open>doLookupHost\<close> is one step on the world.
\<close>

datatype main_pc = GoA | RecvA | GoAAAA | RecvAAAA | Merged "string list result"

datatype task = NotStarted | Running | Sending "string list result" | Returned

record 'w lh_config =
  pc :: main_pc
  taskA :: task
  taskAAAA :: task
  replyA :: "string list result option"
  world :: 'w

definition lh_init :: "'w \<Rightarrow> 'w lh_config" where
  "lh_init w = \<lparr>pc = GoA, taskA = NotStarted, taskAAAA = NotStarted, replyA = None, world = w\<rparr>"

definition main_steps :: "'w lh_config \<Rightarrow> 'w lh_config list" where
  "main_steps c =
     (case pc c of
        GoA \<Rightarrow> [c\<lparr>pc := RecvA, taskA := Running\<rparr>]
      | RecvA \<Rightarrow>
          (case taskA c of
             Sending res \<Rightarrow> [c\<lparr>pc := GoAAAA, taskA := Returned, replyA := Some res\<rparr>]
           | _ \<Rightarrow> [])
      | GoAAAA \<Rightarrow> [c\<lparr>pc := RecvAAAA, taskAAAA := Running\<rparr>]
      | RecvAAAA \<Rightarrow>
          (case (taskAAAA c, replyA c) of
             (Sending res, Some ra) \<Rightarrow>
               [c\<lparr>pc := Merged (merge_replies ra res), taskAAAA := Returned\<rparr>]
           | _ \<Rightarrow> [])
      | Merged res \<Rightarrow> [])"

definition task_steps ::
  "'w dnsGenericResolver \<Rightarrow> string \<Rightarrow> uint16 \<Rightarrow> task \<Rightarrow> 'w \<Rightarrow> (task \<times> 'w) list" where
  "task_steps r hostname qtype tk w =
     (case tk of
        Running \<Rightarrow> (let (res, w1) = doLookupHost r hostname qtype (padding r) w
                    in [(Sending res, w1)])
      | _ \<Rightarrow> [])"

text \<open>The steps a configuration can take: those of the main goroutine, of the A task and
  of the AAAA task.\<close>

definition lh_steps :: "'w dnsGenericResolver \<Rightarrow> string \<Rightarrow> 'w lh_config \<Rightarrow> 'w lh_config list" where
  "lh_steps r hostname c =
     main_steps c
     @ map (\<lambda>(tk, w). c\<lparr>taskA := tk, world := w\<rparr>)
         (task_steps r hostname TypeA (taskA c) (world c))
     @ map (\<lambda>(tk, w). c\<lparr>taskAAAA := tk, world := w\<rparr>)
         (task_steps r hostname TypeAAAA (taskAAAA c) (world c))"

inductive lh_reachable ::
  "'w dnsGenericResolver \<Rightarrow> string \<Rightarrow> 'w lh_config \<Rightarrow> 'w lh_config \<Rightarrow> bool"
  for r :: "'w dnsGenericResolver" and hostname :: string and c0 :: "'w lh_config" where
  start: "lh_reachable r hostname c0 c0"
| step: "lh_reachable r hostname c0 c \<Longrightarrow> c' \<in> set (lh_steps r hostname c)
           \<Longrightarrow> lh_reachable r hostname c0 c'"

fun in_flight :: "task \<Rightarrow> bool" where
  "in_flight Running = True"
| "in_flight (Sending res) = True"
| "in_flight NotStarted = False"
| "in_flight Returned = False"

definition both_in_flight :: "'w lh_config \<Rightarrow> bool" where
  "both_in_flight c = (in_flight (taskA c) \<and> in_flight (taskAAAA c))"

text \<open>The run of the system from a world \<open>w\<close>, configuration by configuration.\<close>

definition lh_trace :: "'w dnsGenericResolver \<Rightarrow> string \<Rightarrow> 'w \<Rightarrow> 'w lh_config list" where
  "lh_trace r hostname w =
     (let c0 = lh_init w;
          c1 = c0\<lparr>pc := RecvA, taskA := Running\<rparr>;
          (ra, w1) = doLookupHost r hostname TypeA (padding r) w;
          c2 = c1\<lparr>taskA := Sending ra, world := w1\<rparr>;
          c3 = c2\<lparr>pc := GoAAAA, taskA := Returned, replyA := Some ra\<rparr>;
          c4 = c3\<lparr>pc := RecvAAAA, taskAAAA := Running\<rparr>;
          (rb, w2) = doLookupHost r hostname TypeAAAA (padding r) w1;
          c5 = c4\<lparr>taskAAAA := Sending rb, world := w2\<rparr>;
          c6 = c5\<lparr>pc := Merged (merge_replies ra rb), taskAAAA := Returned\<rparr>
      in [c0, c1, c2, c3, c4, c5, c6])"






section \<open>Verified properties\<close>

subsection \<open>Decoding\<close>

lemma collect_addrs_acc:
  "collect_addrs lib qtype answers acc = acc @ matching_addrs lib qtype answers"
proof (induction answers arbitrary: acc)
  case Nil
  show ?case by (simp add: matching_addrs_def)
next
  case (Cons answer rest)
  show ?case
    by (cases answer) (simp_all add: Cons.IH matching_addrs_def TypeA_def TypeAAAA_def)
qed

lemma collect_addrs_matching:
  "collect_addrs lib qtype answers [] = matching_addrs lib qtype answers"
  by (simp add: collect_addrs_acc)

text \<open>
  C2. For a wire reply that the library parses, \<open>DecodeLookupHostResponse\<close> returns
  "no such host" on a name-error response code, the temporary "server misbehaving"
  error on server-failure and the generic "server misbehaving" error on every other
  response code but success; on success it returns the addresses of exactly the answer
  records of the requested type (A or AAAA), in reply order, the others being skipped,
  and "no answer from DNS server" when there is none.
\<close>

theorem DecodeLookupHostResponse_dispatch:
  assumes "Unpack lib data = Inr reply"
  shows "fst (DecodeLookupHostResponse lib mon qtype data w) =
     (if Rcode reply = RcodeNameError then ([], Some ErrDNSNoSuchHost)
      else if Rcode reply = RcodeServerFailure then
        ([], Some ErrDNSServerTemporarilyMisbehaving)
      else if Rcode reply \<noteq> RcodeSuccess then ([], Some ErrDNSServerMisbehaving)
      else if matching_addrs lib qtype (Answer reply) = [] then
        ([], Some ErrDNSNoAsnwerFromDNSServer)
      else (matching_addrs lib qtype (Answer reply), None))"
  using assms
  by (simp add: DecodeLookupHostResponse_def Let_def collect_addrs_matching)

lemma example_Unpack_1:
  "Unpack (example_lib example_Unpack) [1] =
     Inr (example_reply RcodeSuccess [RR_A [93, 184, 216, 34], RR_Other 5, RR_AAAA example_AAAA])"
  by (simp add: example_lib_def example_Unpack_def)

theorem DecodeLookupHostResponse_dispatch_witness:
  "fst (DecodeLookupHostResponse (example_lib example_Unpack) silent_monitor TypeA [1] (0::nat))
     = ([''93.184.216.34''], None)"
proof -
  have "IP_String (example_lib example_Unpack) = dotted"
    by (simp add: example_lib_def)
  then show ?thesis
    using DecodeLookupHostResponse_dispatch [OF example_Unpack_1, of silent_monitor TypeA "0::nat"]
    by (simp add: example_reply_def matching_addrs_def RcodeSuccess_def RcodeNameError_def
        RcodeServerFailure_def TypeA_def TypeAAAA_def byte_decimal_def digit_char_def)
qed

subsection \<open>The merge of the two replies\<close>





subsection \<open>Encoding: the length of a padded query\<close>




















subsection \<open>The TCP/TLS transport: closing the idle connection\<close>

text \<open>
  C7. \<open>CloseIdleConnections\<close> closes the connection and clears the field exactly when a
  connection exists and the waiter counter is zero; with a caller waiting for the lock,
  or without connection, the resolver and the network are as before. The round trip
  behind it returns no reply and no error.
\<close>

theorem CloseIdleConnections_advisory:
  "CloseIdleConnections env r tr =
     (case conn r of
        Some c \<Rightarrow> if users r = 0 then (r\<lparr>conn := None\<rparr>, tr @ [EvClose c]) else (r, tr)
      | None \<Rightarrow> (r, tr))
   \<and> fst (roundTrip env Background None r tr) = ([], None)"
  by (simp add: CloseIdleConnections_def roundTrip_def rtriplocked_def Let_def
      split: option.splits)

theorem CloseIdleConnections_advisory_witness:
  "CloseIdleConnections example_env example_dl [] = (example_dl\<lparr>conn := None\<rparr>, [EvClose 1])
   \<and> CloseIdleConnections example_env (example_dl\<lparr>users := 2\<rparr>) [] =
       (example_dl\<lparr>users := 2\<rparr>, [])"
  using CloseIdleConnections_advisory [of example_env example_dl "[]"]
    CloseIdleConnections_advisory [of example_env "example_dl\<lparr>users := 2\<rparr>" "[]"]
  by (simp add: example_dl_def)

subsection \<open>The TCP/TLS transport: the length prefix\<close>

lemma unat_of_nat_16: "n < 65536 \<Longrightarrow> unat (word_of_nat n :: 64 word) = n"
  by (simp add: unat_of_nat)

lemma unat_drop_bit_8: "n < 65536 \<Longrightarrow> unat (drop_bit 8 (word_of_nat n :: 64 word)) = n div 256"
  by (simp only: unat_drop_bit_eq unat_of_nat_16) (simp add: drop_bit_eq_div)

lemma unat_ucast_byte: "unat (ucast (x :: 64 word) :: byte) = unat x mod 256"
  by (simp add: unsigned_ucast_eq take_bit_eq_mod)

lemma high_octet:
  "n < 65536 \<Longrightarrow> unat (ucast (drop_bit 8 (word_of_nat n :: 64 word)) :: byte) = n div 256"
  by (simp only: unat_ucast_byte unat_drop_bit_8) simp

lemma low_octet:
  "n < 65536 \<Longrightarrow> unat (ucast (word_of_nat n :: 64 word) :: byte) = n mod 256"
  by (simp only: unat_ucast_byte unat_of_nat_16)

lemma length_prefix_decodes:
  assumes "length query \<le> 65535"
  shows "length (length_prefix query) = 2
     \<and> 256 * unat (length_prefix query ! 0) + unat (length_prefix query ! 1) = length query"
proof -
  have n: "length query < 65536" using assms by simp
  show ?thesis
    using high_octet [OF n] low_octet [OF n] by (simp add: length_prefix_def Let_def)
qed

lemma ReadFull_history:
  "\<exists>evs. snd (ReadFull env c n tr) = tr @ evs \<and> length (filter is_write evs) = 0"
  by (simp add: ReadFull_def Let_def)

lemma trySync_history:
  assumes "length query \<le> 65535" and "conn dl = Some c"
  shows "\<exists>werr rest. snd (trySync env query dl tr) =
       tr @ [EvSetDeadline c TenSecondsFromNow, EvWrite c (length_prefix query @ query) werr] @ rest
     \<and> length (filter is_write rest) = 0"
proof -
  let ?tr2 = "tr @ [EvSetDeadline c TenSecondsFromNow,
                    EvWrite c (length_prefix query @ query) None]"
  obtain hres tr3 where h: "ReadFull env c 2 ?tr2 = (hres, tr3)"
    by (cases "ReadFull env c 2 ?tr2") auto
  obtain evs where e: "tr3 = ?tr2 @ evs" and ew: "length (filter is_write evs) = 0"
    using ReadFull_history [of env c 2 ?tr2] h by auto
  show ?thesis
  proof (cases "write_result env (tr @ [EvSetDeadline c TenSecondsFromNow]) c
                  (length_prefix query @ query)")
    case (Some msg)
    then show ?thesis
      using assms by (simp add: trySync_def Let_def)
  next
    case None
    show ?thesis
    proof (cases hres)
      case (Inl msg)
      then show ?thesis
        using assms None h e ew by (simp add: trySync_def Let_def)
    next
      case (Inr header)
      obtain rres tr4 where r: "ReadFull env c (reply_length header) tr3 = (rres, tr4)"
        by (cases "ReadFull env c (reply_length header) tr3") auto
      obtain evs' where e': "tr4 = tr3 @ evs'" and ew': "length (filter is_write evs') = 0"
        using ReadFull_history [of env c "reply_length header" tr3] r by auto
      show ?thesis
        using assms None h e ew Inr r e' ew'
        by (cases rres) (simp_all add: trySync_def Let_def)
    qed
  qed
qed

lemma trySync_too_long:
  "length query > 65535 \<Longrightarrow>
     trySync env query dl tr = (([], Some errDNSOverTCPTLSQueryTooLong), tr)"
  by (simp add: trySync_def)

lemma trySync_not_too_long:
  "length query \<le> 65535 \<Longrightarrow>
     snd (fst (trySync env query dl tr)) \<noteq> Some errDNSOverTCPTLSQueryTooLong"
  by (simp add: trySync_def nil_conn_panic_def Let_def split: option.splits sum.splits prod.splits)

lemma trySync_writes_prefix:
  assumes "length query \<le> 65535" and "conn dl = Some c"
  shows "\<exists>werr rest. snd (trySync env query dl tr) =
     tr @ [EvSetDeadline c TenSecondsFromNow, EvWrite c (length_prefix query @ query) werr] @ rest"
  using trySync_history [OF assms] by blast

text \<open>
  C10. A query longer than 65535 octets makes \<open>trySync\<close> fail with "query too long"
  before any call on the connection, and the round trip on an established connection
  returns that error (or the context's, when the context is done) with the resolver and
  the network untouched. With at most 65535 octets the branch is not taken, and what is
  written first, right after the deadline is set, is the query behind two octets that
  are its length in big-endian order.
\<close>

theorem query_too_long_guard:
  "(65535 < length query \<longrightarrow>
      trySync env query dl tr = (([], Some errDNSOverTCPTLSQueryTooLong), tr)
      \<and> (conn dl \<noteq> None \<longrightarrow>
           roundTrip env ctx (Some query) dl tr =
             (([], Some (case ctx tr of None \<Rightarrow> errDNSOverTCPTLSQueryTooLong
                                      | Some msg \<Rightarrow> ForeignError msg)), dl, tr)))
   \<and> (length query \<le> 65535 \<longrightarrow>
      snd (fst (trySync env query dl tr)) \<noteq> Some errDNSOverTCPTLSQueryTooLong
      \<and> length (length_prefix query) = 2
      \<and> 256 * unat (length_prefix query ! 0) + unat (length_prefix query ! 1) = length query
      \<and> (\<forall>c. conn dl = Some c \<longrightarrow>
            (\<exists>werr rest. snd (trySync env query dl tr) =
               tr @ [EvSetDeadline c TenSecondsFromNow,
                     EvWrite c (length_prefix query @ query) werr] @ rest)))"
proof (intro conjI impI allI)
  assume "65535 < length query"
  then show "trySync env query dl tr = (([], Some errDNSOverTCPTLSQueryTooLong), tr)"
    by (rule trySync_too_long)
next
  assume "65535 < length query" and "conn dl \<noteq> None"
  then show "roundTrip env ctx (Some query) dl tr =
     (([], Some (case ctx tr of None \<Rightarrow> errDNSOverTCPTLSQueryTooLong
                              | Some msg \<Rightarrow> ForeignError msg)), dl, tr)"
    by (simp add: roundTrip_def rtriplocked_def do_tcptls_def maybeDial_def try_tcptls_def
        trySync_too_long Let_def split: option.splits)
next
  assume "length query \<le> 65535"
  then show "snd (fst (trySync env query dl tr)) \<noteq> Some errDNSOverTCPTLSQueryTooLong"
    by (rule trySync_not_too_long)
next
  assume "length query \<le> 65535"
  then show "length (length_prefix query) = 2"
    using length_prefix_decodes by blast
next
  assume "length query \<le> 65535"
  then show "256 * unat (length_prefix query ! 0) + unat (length_prefix query ! 1) = length query"
    using length_prefix_decodes by blast
next
  fix c
  assume "length query \<le> 65535" and "conn dl = Some c"
  then show "\<exists>werr rest. snd (trySync env query dl tr) =
     tr @ [EvSetDeadline c TenSecondsFromNow, EvWrite c (length_prefix query @ query) werr] @ rest"
    by (rule trySync_writes_prefix)
qed

theorem query_too_long_guard_witness:
  "roundTrip example_env Background (Some (replicate 65536 0)) example_dl [] =
     (([], Some errDNSOverTCPTLSQueryTooLong), example_dl, [])
   \<and> 256 * unat (length_prefix [1, 2, 3] ! 0) + unat (length_prefix [1, 2, 3] ! 1) = 3"
  using query_too_long_guard [of "replicate 65536 0" example_env example_dl "[]" Background]
    query_too_long_guard [of "[1, 2, 3]" example_env example_dl "[]" Background]
  by (simp add: example_dl_def Background_def)

subsection \<open>The TCP/TLS transport: redial on a failed write\<close>

lemma count_writes_append [simp]:
  "count_writes (xs @ ys) = count_writes xs + count_writes ys"
  by (simp add: count_writes_def)

lemma count_writes_simps [simp]:
  "count_writes [] = 0"
  "count_writes (EvWrite c buf r # xs) = Suc (count_writes xs)"
  "count_writes (EvDial n a d # xs) = count_writes xs"
  "count_writes (EvClose c # xs) = count_writes xs"
  "count_writes (EvSetDeadline c dd # xs) = count_writes xs"
  "count_writes (EvReadFull c k rr # xs) = count_writes xs"
  by (simp_all add: count_writes_def)
















subsection \<open>The decorators: their order\<close>

text \<open>
  C4. \<open>LookupHost\<close> of the chain built by \<open>WrapResolver\<close>, and of the one built by
  \<open>NewResolverSystem\<close>, written out: IDNA normalisation is applied first, to the raw
  hostname, and its failure ends the call; the logger prints the normalised name before
  anything else is done with it; the literal-IP check comes next and its answer is
  logged; the error wrapper is the innermost layer, called with the normalised name
  around the wrapped resolver, and the logger prints the wrapped error.
\<close>

theorem decorators_order:
  "Resolver_LookupHost nx mon (WrapResolver r) hostname w =
     (case ToASCII nx hostname of
        Inl msg \<Rightarrow> (([], Some (ForeignError msg)), w)
      | Inr host \<Rightarrow>
          (let prefix = ''resolve[A,AAAA] '' @ host @ '' with '' @ Network r
                          @ '' ('' @ Address r @ '')'';
               w1 = Debugf nx (Debugf_start prefix) w
           in if ParseIP nx host then
                (([host], None), Debugf nx (Debugf_success prefix [host]) w1)
              else
                (case Resolver_LookupHost nx mon r host w1 of
                   ((addrs, Some e), w2) \<Rightarrow>
                     (let e' = ErrWrapper (classifyResolverError nx e) ResolveOperation e
                      in (([], Some e'), Debugf nx (Debugf_failure prefix e') w2))
                 | ((addrs, None), w2) \<Rightarrow>
                     ((addrs, None), Debugf nx (Debugf_success prefix addrs) w2))))
   \<and> Resolver_LookupHost nx mon NewResolverSystem hostname w =
     (case ToASCII nx hostname of
        Inl msg \<Rightarrow> (([], Some (ForeignError msg)), w)
      | Inr host \<Rightarrow>
          (let prefix = ''resolve '' @ host;
               w1 = Debugf nx (Debugf_start prefix) w
           in if ParseIP nx host then
                (([host], None), Debugf nx (Debugf_success prefix [host]) w1)
              else
                (case Resolver_LookupHost nx mon ResolverSystem host w1 of
                   ((addrs, Some e), w2) \<Rightarrow>
                     (let e' = ErrWrapper (classifyResolverError nx e) ResolveOperation e
                      in (([], Some e'), Debugf nx (Debugf_failure prefix e') w2))
                 | ((addrs, None), w2) \<Rightarrow>
                     ((addrs, None), Debugf nx (Debugf_success prefix addrs) w2))))"
  by (simp add: WrapResolver_def NewResolverSystem_def Let_def
      split: sum.splits prod.splits option.splits)

lemma example_ToASCII: "ToASCII example_netx ''example.com'' = Inr ''example.com''"
  by (simp add: example_netx_def)

theorem decorators_order_witness:
  "Resolver_LookupHost example_netx silent_monitor (WrapResolver example_external)
       ''example.com'' [] =
     (([''10.0.0.1''], None),
      [Logged (Debugf_start ''resolve[A,AAAA] example.com with udp (8.8.8.8:53)''),
       LookedUp ''example.com'',
       Logged (Debugf_success ''resolve[A,AAAA] example.com with udp (8.8.8.8:53)''
                 [''10.0.0.1''])])"
proof -
  have p: "\<not> ParseIP example_netx ''example.com''"
    by (simp add: example_netx_def)
  have d: "Debugf example_netx = (\<lambda>d w. w @ [Logged d])"
    by (simp add: example_netx_def)
  show ?thesis
    using decorators_order [of example_netx silent_monitor example_external "''example.com''" "[]",
        THEN conjunct1]
    by (simp add: example_ToASCII p d example_external_def Let_def)
qed

subsection \<open>The decorators: literal IP addresses\<close>

text \<open>
  C5. For a string \<open>s\<close> that parses as an IP address, the short-circuit decorator
  returns \<open>[s]\<close> and no error and leaves the world as it is, whatever resolver it wraps.
  Through the whole chain, where IDNA normalisation comes first and leaves such a
  literal as it is (\<open>ToASCII s = s\<close>, a fact of the IDNA library), the result is \<open>[s]\<close>
  and no error, and the only effect is the logger's two lines: the wrapped resolver is
  not called.
\<close>

theorem literal_IP_short_circuit:
  assumes "ParseIP nx s"
  shows "Resolver_LookupHost nx mon (ResolverShortCircuitIPAddr r) s w = (([s], None), w)
     \<and> (ToASCII nx s = Inr s \<longrightarrow>
          Resolver_LookupHost nx mon (WrapResolver r) s w =
            (([s], None),
             Debugf nx (Debugf_success (log_prefix Fmt_resolve_A_AAAA r s) [s])
               (Debugf nx (Debugf_start (log_prefix Fmt_resolve_A_AAAA r s)) w))
          \<and> Resolver_LookupHost nx mon NewResolverSystem s w =
            (([s], None),
             Debugf nx (Debugf_success (''resolve '' @ s) [s])
               (Debugf nx (Debugf_start (''resolve '' @ s)) w)))"
  using assms by (simp add: WrapResolver_def NewResolverSystem_def Let_def)

theorem literal_IP_short_circuit_witness:
  "Resolver_LookupHost example_netx silent_monitor (WrapResolver example_external)
       ''93.184.216.34'' [] =
     (([''93.184.216.34''], None),
      [Logged (Debugf_start ''resolve[A,AAAA] 93.184.216.34 with udp (8.8.8.8:53)''),
       Logged (Debugf_success ''resolve[A,AAAA] 93.184.216.34 with udp (8.8.8.8:53)''
                 [''93.184.216.34''])])"
proof -
  have p: "ParseIP example_netx ''93.184.216.34''"
    by (simp add: example_netx_def)
  have a: "ToASCII example_netx ''93.184.216.34'' = Inr ''93.184.216.34''"
    by (simp add: example_netx_def)
  have d: "Debugf example_netx = (\<lambda>d w. w @ [Logged d])"
    by (simp add: example_netx_def)
  show ?thesis
    using literal_IP_short_circuit [OF p, of silent_monitor example_external "[]"] a
    by (simp add: d example_external_def)
qed

subsection \<open>Addresses or an error, never both\<close>








subsection \<open>The two queries run one after the other\<close>

lemma lh_trace_eq:
  assumes "doLookupHost r hostname TypeA (padding r) w = (ra, w1)"
    and "doLookupHost r hostname TypeAAAA (padding r) w1 = (rb, w2)"
  shows "lh_trace r hostname w =
     [\<lparr>pc = GoA, taskA = NotStarted, taskAAAA = NotStarted, replyA = None, world = w\<rparr>,
      \<lparr>pc = RecvA, taskA = Running, taskAAAA = NotStarted, replyA = None, world = w\<rparr>,
      \<lparr>pc = RecvA, taskA = Sending ra, taskAAAA = NotStarted, replyA = None, world = w1\<rparr>,
      \<lparr>pc = GoAAAA, taskA = Returned, taskAAAA = NotStarted, replyA = Some ra, world = w1\<rparr>,
      \<lparr>pc = RecvAAAA, taskA = Returned, taskAAAA = Running, replyA = Some ra, world = w1\<rparr>,
      \<lparr>pc = RecvAAAA, taskA = Returned, taskAAAA = Sending rb, replyA = Some ra, world = w2\<rparr>,
      \<lparr>pc = Merged (merge_replies ra rb), taskA = Returned, taskAAAA = Returned,
       replyA = Some ra, world = w2\<rparr>]"
  using assms by (simp add: lh_trace_def lh_init_def Let_def)

lemma lh_steps_in_trace:
  assumes "c \<in> set (lh_trace r hostname w)"
  shows "set (lh_steps r hostname c) \<subseteq> set (lh_trace r hostname w)
     \<and> length (lh_steps r hostname c) \<le> 1
     \<and> (lh_steps r hostname c = [] \<longrightarrow> c = last (lh_trace r hostname w))"
proof -
  obtain ra w1 where a: "doLookupHost r hostname TypeA (padding r) w = (ra, w1)"
    by (cases "doLookupHost r hostname TypeA (padding r) w") auto
  obtain rb w2 where b: "doLookupHost r hostname TypeAAAA (padding r) w1 = (rb, w2)"
    by (cases "doLookupHost r hostname TypeAAAA (padding r) w1") auto
  show ?thesis
    using assms unfolding lh_trace_eq [OF a b]
    by (auto simp: lh_steps_def main_steps_def task_steps_def a b)
qed

lemma lh_reachable_in_trace:
  "lh_reachable r hostname (lh_init w) c \<Longrightarrow> c \<in> set (lh_trace r hostname w)"
proof (induction rule: lh_reachable.induct)
  case start
  obtain ra w1 where a: "doLookupHost r hostname TypeA (padding r) w = (ra, w1)"
    by (cases "doLookupHost r hostname TypeA (padding r) w") auto
  obtain rb w2 where b: "doLookupHost r hostname TypeAAAA (padding r) w1 = (rb, w2)"
    by (cases "doLookupHost r hostname TypeAAAA (padding r) w1") auto
  show ?case
    unfolding lh_trace_eq [OF a b] by (simp add: lh_init_def)
next
  case (step c c')
  then show ?case using lh_steps_in_trace [of c r hostname w] by blast
qed

lemma lh_trace_not_both_in_flight:
  "c \<in> set (lh_trace r hostname w) \<Longrightarrow>
     \<not> both_in_flight c \<and> (taskAAAA c = NotStarted \<or> taskA c = Returned)"
proof -
  obtain ra w1 where a: "doLookupHost r hostname TypeA (padding r) w = (ra, w1)"
    by (cases "doLookupHost r hostname TypeA (padding r) w") auto
  obtain rb w2 where b: "doLookupHost r hostname TypeAAAA (padding r) w1 = (rb, w2)"
    by (cases "doLookupHost r hostname TypeAAAA (padding r) w1") auto
  assume "c \<in> set (lh_trace r hostname w)"
  then show ?thesis
    unfolding lh_trace_eq [OF a b] by (auto simp: both_in_flight_def)
qed

lemma lh_trace_last:
  "last (lh_trace r hostname w) =
     \<lparr>pc = Merged (fst (LookupHost r hostname w)), taskA = Returned, taskAAAA = Returned,
      replyA = Some (fst (doLookupHost r hostname TypeA (padding r) w)),
      world = snd (LookupHost r hostname w)\<rparr>"
proof -
  obtain ra w1 where a: "doLookupHost r hostname TypeA (padding r) w = (ra, w1)"
    by (cases "doLookupHost r hostname TypeA (padding r) w") auto
  obtain rb w2 where b: "doLookupHost r hostname TypeAAAA (padding r) w1 = (rb, w2)"
    by (cases "doLookupHost r hostname TypeAAAA (padding r) w1") auto
  show ?thesis
    unfolding lh_trace_eq [OF a b] by (simp add: LookupHost_def a b)
qed

lemma lh_trace_reachable:
  "c \<in> set (lh_trace r hostname w) \<Longrightarrow> lh_reachable r hostname (lh_init w) c"
proof -
  obtain ra w1 where a: "doLookupHost r hostname TypeA (padding r) w = (ra, w1)"
    by (cases "doLookupHost r hostname TypeA (padding r) w") auto
  obtain rb w2 where b: "doLookupHost r hostname TypeAAAA (padding r) w1 = (rb, w2)"
    by (cases "doLookupHost r hostname TypeAAAA (padding r) w1") auto
  let ?c0 = "\<lparr>pc = GoA, taskA = NotStarted, taskAAAA = NotStarted, replyA = None, world = w\<rparr>"
  let ?c1 = "\<lparr>pc = RecvA, taskA = Running, taskAAAA = NotStarted, replyA = None, world = w\<rparr>"
  let ?c2 = "\<lparr>pc = RecvA, taskA = Sending ra, taskAAAA = NotStarted, replyA = None, world = w1\<rparr>"
  let ?c3 = "\<lparr>pc = GoAAAA, taskA = Returned, taskAAAA = NotStarted, replyA = Some ra, world = w1\<rparr>"
  let ?c4 = "\<lparr>pc = RecvAAAA, taskA = Returned, taskAAAA = Running, replyA = Some ra, world = w1\<rparr>"
  let ?c5 = "\<lparr>pc = RecvAAAA, taskA = Returned, taskAAAA = Sending rb, replyA = Some ra, world = w2\<rparr>"
  let ?c6 = "\<lparr>pc = Merged (merge_replies ra rb), taskA = Returned, taskAAAA = Returned,
       replyA = Some ra, world = w2\<rparr>"
  have i: "lh_init w = ?c0" by (simp add: lh_init_def)
  have r0: "lh_reachable r hostname (lh_init w) ?c0"
    unfolding i by (rule lh_reachable.start)
  have r1: "lh_reachable r hostname (lh_init w) ?c1"
    by (rule lh_reachable.step [OF r0]) (simp add: lh_steps_def main_steps_def task_steps_def)
  have r2: "lh_reachable r hostname (lh_init w) ?c2"
    by (rule lh_reachable.step [OF r1]) (simp add: lh_steps_def main_steps_def task_steps_def a)
  have r3: "lh_reachable r hostname (lh_init w) ?c3"
    by (rule lh_reachable.step [OF r2]) (simp add: lh_steps_def main_steps_def task_steps_def)
  have r4: "lh_reachable r hostname (lh_init w) ?c4"
    by (rule lh_reachable.step [OF r3]) (simp add: lh_steps_def main_steps_def task_steps_def)
  have r5: "lh_reachable r hostname (lh_init w) ?c5"
    by (rule lh_reachable.step [OF r4]) (simp add: lh_steps_def main_steps_def task_steps_def b)
  have r6: "lh_reachable r hostname (lh_init w) ?c6"
    by (rule lh_reachable.step [OF r5]) (simp add: lh_steps_def main_steps_def task_steps_def)
  assume "c \<in> set (lh_trace r hostname w)"
  then show ?thesis
    unfolding lh_trace_eq [OF a b] using r0 r1 r2 r3 r4 r5 r6 by auto
qed

text \<open>
  C8, as the code has it. The configurations \<open>LookupHost\<close> can reach are those of its
  one run: the A task is started and its result received before the AAAA task is
  started, so the two tasks are never in flight together; every configuration has at most
  one next step, and the only one without a next step is the final one, where both tasks
  have returned, the result is the merge of the two replies and the world is the one
  after both queries, whether the A query failed or not.
\<close>

theorem LookupHost_tasks_sequential:
  "(lh_reachable r hostname (lh_init w) c \<longleftrightarrow> c \<in> set (lh_trace r hostname w))
   \<and> (lh_reachable r hostname (lh_init w) c \<longrightarrow>
        \<not> both_in_flight c
        \<and> (taskAAAA c = NotStarted \<or> taskA c = Returned)
        \<and> length (lh_steps r hostname c) \<le> 1
        \<and> (lh_steps r hostname c = [] \<longrightarrow> c = last (lh_trace r hostname w)))
   \<and> last (lh_trace r hostname w) =
        \<lparr>pc = Merged (fst (LookupHost r hostname w)), taskA = Returned, taskAAAA = Returned,
         replyA = Some (fst (doLookupHost r hostname TypeA (padding r) w)),
         world = snd (LookupHost r hostname w)\<rparr>"
  using lh_reachable_in_trace [of r hostname w c] lh_trace_reachable [of c r hostname w]
    lh_steps_in_trace [of c r hostname w] lh_trace_not_both_in_flight [of c r hostname w]
    lh_trace_last [of r hostname w]
  by blast

lemma example_doLookupHost_A:
  "doLookupHost example_resolver ''example.com'' TypeA False 0 =
     (([], Some (ForeignError ''i/o timeout'')), 1)"
  by (simp add: doLookupHost_def example_resolver_def dnsMiekgCodec_def
      EncodeLookupHostRequest_def EncodeLookupHostRequest_query_def Msg_Pack_def
      example_lib_def example_Fqdn_def example_transport_def silent_monitor_def Let_def)

text \<open>
  Against C8 as stated: for the example resolver, whose transport fails the first round
  trip, no reachable configuration has the A task and the AAAA task in flight together.
\<close>

theorem LookupHost_tasks_parallel_counterexample:
  "\<not> (\<exists>c. lh_reachable example_resolver ''example.com'' (lh_init 0) c \<and> both_in_flight c)"
proof
  assume "\<exists>c. lh_reachable example_resolver ''example.com'' (lh_init 0) c \<and> both_in_flight c"
  then obtain c where "lh_reachable example_resolver ''example.com'' (lh_init 0) c"
    and "both_in_flight c" by blast
  then show False
    using lh_trace_not_both_in_flight [OF lh_reachable_in_trace, of example_resolver
        "''example.com''" 0 c]
    by simp
qed

theorem LookupHost_tasks_sequential_witness:
  "lh_reachable example_resolver ''example.com'' (lh_init 0)
      (last (lh_trace example_resolver ''example.com'' 0))
   \<and> \<not> both_in_flight (last (lh_trace example_resolver ''example.com'' 0))
   \<and> taskAAAA (last (lh_trace example_resolver ''example.com'' 0)) = Returned
   \<and> replyA (last (lh_trace example_resolver ''example.com'' 0)) =
       Some ([], Some (ForeignError ''i/o timeout''))"
proof -
  let ?c = "last (lh_trace example_resolver ''example.com'' 0)"
  note t = LookupHost_tasks_sequential [of example_resolver "''example.com''" 0 ?c]
  have p: "padding example_resolver = False"
    by (simp add: example_resolver_def)
  have "lh_trace example_resolver ''example.com'' 0 \<noteq> []"
    by (simp add: lh_trace_def Let_def split: prod.splits)
  then have m: "?c \<in> set (lh_trace example_resolver ''example.com'' 0)"
    by (rule last_in_set)
  have r: "lh_reachable example_resolver ''example.com'' (lh_init 0) ?c"
    using t m by blast
  have n: "\<not> both_in_flight ?c"
    using t r by blast
  have e: "?c = \<lparr>pc = Merged (fst (LookupHost example_resolver ''example.com'' 0)),
         taskA = Returned, taskAAAA = Returned,
         replyA = Some (fst (doLookupHost example_resolver ''example.com'' TypeA
                               (padding example_resolver) 0)),
         world = snd (LookupHost example_resolver ''example.com'' 0)\<rparr>"
    using t by blast
  have "taskAAAA ?c = Returned"
    by (subst e) simp
  moreover have "replyA ?c = Some ([], Some (ForeignError ''i/o timeout''))"
    by (subst e) (simp add: p example_doLookupHost_A)
  ultimately show ?thesis
    using r n by blast
qed

end
